theory Spec2Isabelle
  imports Complex_Main
begin

section \<open>Strings\<close>

text \<open>
  A JavaScript string is modelled as a \<^typ>\<open>string\<close>. All texts of the catalog and all
  lexicon patterns are ASCII; the one non-ASCII character of the replies (the headphone
  sign U+1F3A7) is written as its four UTF-8 bytes. \<open>toLowerCase\<close> maps the letters
  \<open>A\<close> .. \<open>Z\<close> to \<open>a\<close> .. \<open>z\<close> and leaves every other character alone, which is what
  JavaScript does on ASCII text.
\<close>

definition toLowerChar :: "char \<Rightarrow> char" where
  "toLowerChar c =
     (if c = CHR ''A'' then CHR ''a'' else if c = CHR ''B'' then CHR ''b''
      else if c = CHR ''C'' then CHR ''c'' else if c = CHR ''D'' then CHR ''d''
      else if c = CHR ''E'' then CHR ''e'' else if c = CHR ''F'' then CHR ''f''
      else if c = CHR ''G'' then CHR ''g'' else if c = CHR ''H'' then CHR ''h''
      else if c = CHR ''I'' then CHR ''i'' else if c = CHR ''J'' then CHR ''j''
      else if c = CHR ''K'' then CHR ''k'' else if c = CHR ''L'' then CHR ''l''
      else if c = CHR ''M'' then CHR ''m'' else if c = CHR ''N'' then CHR ''n''
      else if c = CHR ''O'' then CHR ''o'' else if c = CHR ''P'' then CHR ''p''
      else if c = CHR ''Q'' then CHR ''q'' else if c = CHR ''R'' then CHR ''r''
      else if c = CHR ''S'' then CHR ''s'' else if c = CHR ''T'' then CHR ''t''
      else if c = CHR ''U'' then CHR ''u'' else if c = CHR ''V'' then CHR ''v''
      else if c = CHR ''W'' then CHR ''w'' else if c = CHR ''X'' then CHR ''x''
      else if c = CHR ''Y'' then CHR ''y'' else if c = CHR ''Z'' then CHR ''z''
      else c)"

definition toLowerCase :: "string \<Rightarrow> string" where
  "toLowerCase s = map toLowerChar s"

text \<open>\<open>s.startsWith(p)\<close> and \<open>s.includes(p)\<close>: \<open>p\<close> occurs in \<open>s\<close> as a contiguous run.\<close>

fun startsWith :: "string \<Rightarrow> string \<Rightarrow> bool" where
  "startsWith s [] = True"
| "startsWith [] (p # ps) = False"
| "startsWith (c # cs) (p # ps) = (c = p \<and> startsWith cs ps)"

fun includes_str :: "string \<Rightarrow> string \<Rightarrow> bool" where
  "includes_str [] p = startsWith [] p"
| "includes_str (c # cs) p = (startsWith (c # cs) p \<or> includes_str cs p)"

text \<open>\<open>s.substring(0, n)\<close> on a string.\<close>

definition substring0 :: "string \<Rightarrow> nat \<Rightarrow> string" where
  "substring0 s n = take n s"

text \<open>\<open>s.split(' ')\<close>: the pieces between single spaces, empty pieces included.\<close>

fun splitSpaces :: "string \<Rightarrow> string list" where
  "splitSpaces [] = [[]]"
| "splitSpaces (c # cs) =
     (if c = CHR '' '' then [] # splitSpaces cs
      else (case splitSpaces cs of [] \<Rightarrow> [[c]] | w # ws \<Rightarrow> (c # w) # ws))"

text \<open>\<open>String.prototype.trim\<close> and the class \<open>\s\<close> of regular expressions, on ASCII text.\<close>

definition isSpace :: "char \<Rightarrow> bool" where
  "isSpace c = (c = CHR '' '' \<or> c = CHR 0x09 \<or> c = CHR 0x0A \<or> c = CHR 0x0B
     \<or> c = CHR 0x0C \<or> c = CHR 0x0D)"

definition trim :: "string \<Rightarrow> string" where
  "trim s = rev (dropWhile isSpace (rev (dropWhile isSpace s)))"

text \<open>
  \<open>s.split(/(?<=[...])\s+/)\<close>: the string is cut at every run of white space that follows
  one of the characters of the class; the run is dropped.
\<close>

function splitAfter :: "(char \<Rightarrow> bool) \<Rightarrow> string \<Rightarrow> string list" where
  "splitAfter P [] = [[]]"
| "splitAfter P (c # cs) =
     (if P c \<and> cs \<noteq> [] \<and> isSpace (hd cs) then [c] # splitAfter P (dropWhile isSpace cs)
      else (case splitAfter P cs of [] \<Rightarrow> [[c]] | w # ws \<Rightarrow> (c # w) # ws))"
  by pat_completeness auto
termination
  by (relation "measure (\<lambda>(P, s). length s)")
     (auto simp: less_Suc_eq_le length_dropWhile_le)

section \<open>API types (\<open>types/api\<close>)\<close>

datatype TranscriptionStatus = pending | processing | completed | failed

record MediaFile =
  mf_id :: string
  mf_filename :: string
  mf_title :: string
  mf_description :: "string option"
  mf_duration :: real
  mf_fileSize :: real
  mf_mimeType :: string
  mf_transcriptionStatus :: TranscriptionStatus
  mf_topics :: "string list"
  mf_genre :: "string option"
  mf_uploadedAt :: string
  mf_processedAt :: "string option"
  mf_streamUrl :: string
  mf_albumArt :: "string option"

record TranscriptionSegment =
  seg_id :: string
  seg_startTime :: real
  seg_endTime :: real
  seg_text :: string
  seg_confidence :: real
  seg_speaker :: "string option"

record RequestContext =
  ctx_currentFile :: "string option"
  ctx_currentTime :: "real option"

record ChatMessageRequest =
  req_message :: string
  req_conversationId :: "string option"
  req_context :: "RequestContext option"

datatype PlaybackActionType = play_segment | play_from_start

record PlaybackAction =
  pa_type :: PlaybackActionType
  pa_fileId :: string
  pa_segment :: TranscriptionSegment
  pa_intent :: string

record Recommendation =
  rec_file :: MediaFile
  rec_reasoningText :: string
  rec_relevanceScore :: real
  rec_matchedInterests :: "string list"

record ChatMessageResponse =
  resp_response :: string
  resp_conversationId :: string
  resp_timestamp :: string
  resp_recommendations :: "Recommendation list option"
  resp_relatedSegments :: "TranscriptionSegment list option"
  resp_playbackAction :: "PlaybackAction option"

section \<open>Mock catalog (\<open>services/mockApi\<close>)\<close>

definition mockMediaFile_0 :: MediaFile where
  "mockMediaFile_0 = \<lparr>
     mf_id = ''1'',
     mf_filename = ''startup-journey.mp3'',
     mf_title = ''The Startup Journey: From Idea to IPO'',
     mf_description = Some ''Deep dive into the entrepreneurial journey with successful founders'',
     mf_duration = 3600,
     mf_fileSize = 52428800,
     mf_mimeType = ''audio/mpeg'',
     mf_transcriptionStatus = completed,
     mf_topics = [''entrepreneurship'', ''startups'', ''business'', ''IPO''],
     mf_genre = Some ''Business'',
     mf_uploadedAt = ''2024-01-10T08:00:00Z'',
     mf_processedAt = Some ''2024-01-10T08:30:00Z'',
     mf_streamUrl = ''/api/stream/1'',
     mf_albumArt = Some ''https://images.unsplash.com/photo-1507003211169-0a1dd7228f2d?w=400&h=400&fit=crop&crop=face'' \<rparr>"

definition mockMediaFile_1 :: MediaFile where
  "mockMediaFile_1 = \<lparr>
     mf_id = ''2'',
     mf_filename = ''ai-revolution.mp3'',
     mf_title = ''The AI Revolution: What's Next?'',
     mf_description = Some ''Exploring the future of artificial intelligence and its impact on society'',
     mf_duration = 2700,
     mf_fileSize = 38400000,
     mf_mimeType = ''audio/mpeg'',
     mf_transcriptionStatus = completed,
     mf_topics = [''artificial intelligence'', ''technology'', ''future'', ''society''],
     mf_genre = Some ''Technology'',
     mf_uploadedAt = ''2024-01-12T14:00:00Z'',
     mf_processedAt = Some ''2024-01-12T14:25:00Z'',
     mf_streamUrl = ''/api/stream/2'',
     mf_albumArt = Some ''https://images.unsplash.com/photo-1485827404703-89b55fcc595e?w=400&h=400&fit=crop'' \<rparr>"

definition mockMediaFile_2 :: MediaFile where
  "mockMediaFile_2 = \<lparr>
     mf_id = ''3'',
     mf_filename = ''meditation-basics.mp3'',
     mf_title = ''Meditation Basics: Finding Inner Peace'',
     mf_description = Some ''A beginner's guide to meditation and mindfulness practices'',
     mf_duration = 1800,
     mf_fileSize = 25600000,
     mf_mimeType = ''audio/mpeg'',
     mf_transcriptionStatus = completed,
     mf_topics = [''meditation'', ''mindfulness'', ''wellness'', ''mental health''],
     mf_genre = Some ''Health & Wellness'',
     mf_uploadedAt = ''2024-01-14T09:00:00Z'',
     mf_processedAt = Some ''2024-01-14T09:15:00Z'',
     mf_streamUrl = ''/api/stream/3'',
     mf_albumArt = Some ''https://images.unsplash.com/photo-1506905925346-21bda4d32df4?w=400&h=400&fit=crop'' \<rparr>"

text \<open>\<open>mockRecommendations\<close>; its entries refer to \<open>mockMediaFiles[0]\<close> and \<open>[1]\<close>.\<close>

definition mockRecommendations :: "Recommendation list" where
  "mockRecommendations =
     [\<lparr> rec_file = mockMediaFile_0,
        rec_reasoningText = ''Based on your interest in entrepreneurship and business growth'',
        rec_relevanceScore = 0.92,
        rec_matchedInterests = [''entrepreneurship'', ''business''] \<rparr>,
      \<lparr> rec_file = mockMediaFile_1,
        rec_reasoningText = ''You've shown interest in technology and future trends'',
        rec_relevanceScore = 0.87,
        rec_matchedInterests = [''technology'', ''AI''] \<rparr>]"

definition seg_1 :: TranscriptionSegment where
  "seg_1 = \<lparr> seg_id = ''seg-1'', seg_startTime = 120, seg_endTime = 180,
     seg_text = ''When it comes to startup funding, timing and preparation are absolutely crucial for success. Many entrepreneurs make the mistake of approaching investors too early.'',
     seg_confidence = 0.94, seg_speaker = None \<rparr>"

definition seg_2 :: TranscriptionSegment where
  "seg_2 = \<lparr> seg_id = ''seg-2'', seg_startTime = 180, seg_endTime = 240,
     seg_text = ''Venture capital firms typically look for companies that have achieved product-market fit and are ready to scale rapidly with the right capital injection.'',
     seg_confidence = 0.91, seg_speaker = None \<rparr>"

definition seg_3 :: TranscriptionSegment where
  "seg_3 = \<lparr> seg_id = ''seg-3'', seg_startTime = 420, seg_endTime = 480,
     seg_text = ''Building a strong founding team is essential. Investors invest in people just as much as they invest in ideas and market opportunities.'',
     seg_confidence = 0.93, seg_speaker = None \<rparr>"

definition seg_4 :: TranscriptionSegment where
  "seg_4 = \<lparr> seg_id = ''seg-4'', seg_startTime = 60, seg_endTime = 120,
     seg_text = ''Artificial intelligence is transforming every industry, from healthcare to transportation. The pace of innovation is unprecedented.'',
     seg_confidence = 0.96, seg_speaker = None \<rparr>"

definition seg_5 :: TranscriptionSegment where
  "seg_5 = \<lparr> seg_id = ''seg-5'', seg_startTime = 300, seg_endTime = 360,
     seg_text = ''Machine learning algorithms are becoming more sophisticated, enabling applications we couldn't imagine just a few years ago.'',
     seg_confidence = 0.92, seg_speaker = None \<rparr>"

text \<open>
  \<open>mockSegments\<close>: the object keyed by file id, as an association list, and its two
  entries \<open>mockSegments['file-1']\<close> and \<open>mockSegments['file-2']\<close>. The resolver reads
  them at the constant indices 0 and 2 of the first and 0 of the second, all in range.
\<close>

definition mockSegments_file_1 :: "TranscriptionSegment list" where
  "mockSegments_file_1 = [seg_1, seg_2, seg_3]"

definition mockSegments_file_2 :: "TranscriptionSegment list" where
  "mockSegments_file_2 = [seg_4, seg_5]"

definition mockSegments :: "(string \<times> TranscriptionSegment list) list" where
  "mockSegments = [(''file-1'', mockSegments_file_1), (''file-2'', mockSegments_file_2)]"

record PlaybackIntentEntry =
  patterns :: "string list"
  action :: PlaybackActionType

definition playbackIntents :: "PlaybackIntentEntry list" where
  "playbackIntents =
     [\<lparr> patterns = [''play'', ''start'', ''listen''], action = play_segment \<rparr>,
      \<lparr> patterns = [''jump to'', ''go to'', ''skip to''], action = play_segment \<rparr>,
      \<lparr> patterns = [''hear'', ''listen to''], action = play_segment \<rparr>,
      \<lparr> patterns = [''show me'', ''find'', ''locate''], action = play_segment \<rparr>]"

definition currentConversationId :: string where
  "currentConversationId = ''1''"

section \<open>The resolver: \<open>mockApiService.sendChatMessage\<close>\<close>

text \<open>The headphone sign that opens every playback reply, as UTF-8.\<close>

definition headphone :: string where
  "headphone = [CHR 0xF0, CHR 0x9F, CHR 0x8E, CHR 0xA7]"

definition hasPlayIntent :: "string \<Rightarrow> bool" where
  "hasPlayIntent message =
     list_ex (\<lambda>intent. list_ex (\<lambda>pattern. includes_str message pattern) (patterns intent))
       playbackIntents"

text \<open>The three topic tests of the playback branch, in the order of the source.\<close>

definition topicStartup :: "string \<Rightarrow> bool" where
  "topicStartup message =
     (includes_str message ''startup'' \<or> includes_str message ''funding'' \<or> includes_str message ''venture'')"

definition topicAI :: "string \<Rightarrow> bool" where
  "topicAI message =
     (includes_str message ''ai'' \<or> includes_str message ''artificial intelligence''
      \<or> includes_str message ''machine learning'')"

definition topicTeam :: "string \<Rightarrow> bool" where
  "topicTeam message =
     (includes_str message ''team'' \<or> includes_str message ''founding'' \<or> includes_str message ''investors'')"

definition replyStartup :: "TranscriptionSegment \<Rightarrow> string" where
  "replyStartup segment = headphone @ '' Starting playback: \"'' @ substring0 (seg_text segment) 80 @
     ''...\" I found the perfect segment about startup funding strategies. This discusses the crucial timing and preparation needed for successful fundraising.''"

definition replyAI :: "TranscriptionSegment \<Rightarrow> string" where
  "replyAI segment = headphone @ '' Starting playback: \"'' @ substring0 (seg_text segment) 80 @
     ''...\" Here's a great segment about AI transforming industries. This covers the unprecedented pace of innovation we're seeing today.''"

definition replyTeam :: "TranscriptionSegment \<Rightarrow> string" where
  "replyTeam segment = headphone @ '' Starting playback: \"'' @ substring0 (seg_text segment) 80 @
     ''...\" This segment discusses the importance of building a strong founding team and what investors really look for.''"

definition replyDefault :: string where
  "replyDefault = headphone @
     '' Starting playback: Here's one of our most popular segments about startup funding. You can always ask me to \"play the part about [specific topic]\" to find exactly what you're looking for!''"

definition replyChatStartup :: string where
  "replyChatStartup = ''I found some excellent content about startups and entrepreneurship! The startup journey involves many challenges, but with the right mindset and preparation, success is achievable. Try saying \"play the part about startup funding\" to jump directly to relevant segments.''"

definition replyChatAI :: string where
  "replyChatAI = ''AI and technology are fascinating topics! The current revolution in artificial intelligence is transforming every industry. From machine learning to neural networks, there's so much to explore. You can say \"play the AI segment\" to hear about industry transformation.''"

definition replyChatMeditation :: string where
  "replyChatMeditation = ''Mindfulness and meditation are excellent for mental well-being. Starting with just 10 minutes a day can make a significant difference in your stress levels and overall happiness. I have some beginner-friendly meditation content that might help.''"

definition replyChatGeneric :: string where
  "replyChatGeneric = ''That's an interesting question! I can help you discover relevant podcast content and even play specific segments. Try saying something like \"play the part about startup funding\" or \"listen to the AI discussion\" to jump directly to relevant content.''"

text \<open>
  The locals \<open>response\<close>, \<open>recommendations\<close>, \<open>playbackAction\<close> and \<open>relatedSegments\<close> that
  the body assigns before it builds the result.
\<close>

record ChatLocals =
  l_response :: string
  l_recommendations :: "Recommendation list"
  l_playbackAction :: "PlaybackAction option"
  l_relatedSegments :: "TranscriptionSegment list"

definition chatLocals :: "string \<Rightarrow> ChatLocals" where
  "chatLocals message =
     (if hasPlayIntent message then
        (if topicStartup message then
           \<lparr> l_response = replyStartup (mockSegments_file_1 ! 0), l_recommendations = [],
             l_playbackAction = Some \<lparr> pa_type = play_segment, pa_fileId = ''file-1'',
               pa_segment = mockSegments_file_1 ! 0,
               pa_intent = ''User requested to play startup funding content'' \<rparr>,
             l_relatedSegments = [] \<rparr>
         else if topicAI message then
           \<lparr> l_response = replyAI (mockSegments_file_2 ! 0), l_recommendations = [],
             l_playbackAction = Some \<lparr> pa_type = play_segment, pa_fileId = ''file-2'',
               pa_segment = mockSegments_file_2 ! 0,
               pa_intent = ''User requested to play AI content'' \<rparr>,
             l_relatedSegments = [] \<rparr>
         else if topicTeam message then
           \<lparr> l_response = replyTeam (mockSegments_file_1 ! 2), l_recommendations = [],
             l_playbackAction = Some \<lparr> pa_type = play_segment, pa_fileId = ''file-1'',
               pa_segment = mockSegments_file_1 ! 2,
               pa_intent = ''User requested content about team building'' \<rparr>,
             l_relatedSegments = [] \<rparr>
         else
           \<lparr> l_response = replyDefault, l_recommendations = [],
             l_playbackAction = Some \<lparr> pa_type = play_segment, pa_fileId = ''file-1'',
               pa_segment = mockSegments_file_1 ! 0,
               pa_intent = ''User requested playback - showing popular content'' \<rparr>,
             l_relatedSegments = [] \<rparr>)
      else
        (if includes_str message ''startup'' \<or> includes_str message ''business''
            \<or> includes_str message ''funding'' then
           \<lparr> l_response = replyChatStartup, l_recommendations = [mockRecommendations ! 0],
             l_playbackAction = None, l_relatedSegments = take 2 mockSegments_file_1 \<rparr>
         else if includes_str message ''ai'' \<or> includes_str message ''technology''
            \<or> includes_str message ''artificial intelligence'' then
           \<lparr> l_response = replyChatAI, l_recommendations = [mockRecommendations ! 1],
             l_playbackAction = None, l_relatedSegments = mockSegments_file_2 \<rparr>
         else if includes_str message ''meditation'' \<or> includes_str message ''wellness'' then
           \<lparr> l_response = replyChatMeditation,
             l_recommendations =
               [\<lparr> rec_file = mockMediaFile_2,
                  rec_reasoningText = ''Perfect for beginners interested in meditation'',
                  rec_relevanceScore = 0.95,
                  rec_matchedInterests = [''meditation'', ''wellness''] \<rparr>],
             l_playbackAction = None, l_relatedSegments = [] \<rparr>
         else
           \<lparr> l_response = replyChatGeneric, l_recommendations = take 2 mockRecommendations,
             l_playbackAction = None,
             l_relatedSegments = take 1 mockSegments_file_1 @ take 1 mockSegments_file_2 \<rparr>))"

text \<open>
  \<open>sendChatMessage\<close>. The clock read \<open>new Date().toISOString()\<close> is the parameter \<open>now\<close>;
  the artificial delay has no effect on the result. \<open>a || b\<close> on an optional string
  takes \<open>b\<close> when \<open>a\<close> is missing or empty.
\<close>

definition sendChatMessage :: "string \<Rightarrow> ChatMessageRequest \<Rightarrow> ChatMessageResponse" where
  "sendChatMessage now request =
     (let message = toLowerCase (req_message request);
          l = chatLocals message
      in \<lparr> resp_response = l_response l,
           resp_conversationId =
             (case req_conversationId request of
                None \<Rightarrow> currentConversationId
              | Some c \<Rightarrow> if c = [] then currentConversationId else c),
           resp_timestamp = now,
           resp_recommendations =
             (if length (l_recommendations l) > 0 then Some (l_recommendations l) else None),
           resp_relatedSegments =
             (if length (l_relatedSegments l) > 0 then Some (l_relatedSegments l) else None),
           resp_playbackAction = l_playbackAction l \<rparr>)"

section \<open>The spec's scoring rule, for comparison\<close>

text \<open>
  The source has no scoring function. The definitions of this section follow the words of
  the specification (section 4.2, step 2: count the case-insensitive keyword overlaps
  between the utterance and the segment's text, the topic tags of the owning file adding
  weight) and serve only to compare the selection of \<open>sendChatMessage\<close> with the
  tie-break order the specification describes. Keywords are the distinct words of the
  lowercased utterance; the topic tags are those of the playback catalog below.
\<close>

definition spec_keywords :: "string \<Rightarrow> string list" where
  "spec_keywords utterance =
     remdups (filter (\<lambda>w. w \<noteq> []) (splitSpaces (toLowerCase utterance)))"

definition spec_score ::
  "(string \<times> MediaFile) list \<Rightarrow> string \<Rightarrow> string \<times> TranscriptionSegment \<Rightarrow> nat" where
  "spec_score files utterance fs =
     length (filter (\<lambda>w. includes_str (toLowerCase (seg_text (snd fs))) w)
       (spec_keywords utterance))
     + length (filter (\<lambda>w. list_ex (\<lambda>t. includes_str (toLowerCase t) w)
          (case map_of files (fst fs) of None \<Rightarrow> [] | Some f \<Rightarrow> mf_topics f))
        (spec_keywords utterance))"

text \<open>The catalog as a list of (file id, segment) pairs.\<close>

definition catalogSegments :: "(string \<times> TranscriptionSegment) list" where
  "catalogSegments = concat (map (\<lambda>(f, segs). map (\<lambda>s. (f, s)) segs) mockSegments)"

section \<open>Playback (\<open>contexts/PlaybackContext\<close>)\<close>

text \<open>\<open>mockMediaFiles\<close> of the provider: the object keyed by file id.\<close>

definition playbackMockMediaFiles :: "(string \<times> MediaFile) list" where
  "playbackMockMediaFiles =
     [(''file-1'', \<lparr>
         mf_id = ''file-1'',
         mf_filename = ''startup-funding-podcast.mp3'',
         mf_title = ''Startup Funding Strategies'',
         mf_description = Some ''Discussion about venture capital and startup funding'',
         mf_duration = 3600,
         mf_fileSize = 45000000,
         mf_mimeType = ''audio/mpeg'',
         mf_transcriptionStatus = completed,
         mf_topics = [''startups'', ''funding'', ''venture capital''],
         mf_genre = None,
         mf_uploadedAt = ''2024-01-15T10:00:00Z'',
         mf_processedAt = None,
         mf_streamUrl = ''/api/media/files/file-1/stream'',
         mf_albumArt = None \<rparr>),
      (''file-2'', \<lparr>
         mf_id = ''file-2'',
         mf_filename = ''ai-future-podcast.mp3'',
         mf_title = ''The Future of AI'',
         mf_description = Some ''Expert panel on artificial intelligence trends'',
         mf_duration = 2700,
         mf_fileSize = 32000000,
         mf_mimeType = ''audio/mpeg'',
         mf_transcriptionStatus = completed,
         mf_topics = [''AI'', ''technology'', ''future''],
         mf_genre = None,
         mf_uploadedAt = ''2024-01-16T14:30:00Z'',
         mf_processedAt = None,
         mf_streamUrl = ''/api/media/files/file-2/stream'',
         mf_albumArt = None \<rparr>)]"


text \<open>
  The one \<open>audio\<close> element the provider renders. \<open>el_src\<close> is the source as it was last
  assigned and \<open>el_loads\<close> counts the assignments. Assigning \<open>src\<close> makes the browser
  drop the resource it was playing and load the new one: the element is paused, its
  position is 0 and it has no data yet.
\<close>

record MediaElement =
  el_src :: string
  el_readyState :: nat
  el_currentTime :: real
  el_paused :: bool
  el_loads :: nat

definition assignSrc :: "string \<Rightarrow> MediaElement \<Rightarrow> MediaElement" where
  "assignSrc url el = el\<lparr> el_src := url, el_readyState := 0, el_currentTime := 0,
     el_paused := True, el_loads := Suc (el_loads el) \<rparr>"

record Playback =
  currentFile :: "MediaFile option"
  isPlaying :: bool
  pb_currentTime :: real
  pb_duration :: real
  currentSegment :: "TranscriptionSegment option"
  isLoading :: bool
  pb_error :: "string option"
  audioRef :: "MediaElement option"

text \<open>
  The getter \<open>audio.src\<close>. The browser reports the assigned source resolved against the
  address of the page: nothing for an element without a source, the origin of the page
  followed by the path for a source that starts with a slash (all stream URLs of the
  catalog do), and the source itself when it is already an absolute URL.
\<close>

definition srcGetter :: "string \<Rightarrow> string \<Rightarrow> string" where
  "srcGetter pageOrigin src =
     (if src = [] then []
      else if startsWith src ''/'' then pageOrigin @ src
      else src)"

text \<open>
  What the browser does to one call of \<open>playSegment\<close>: the origin of the page, whether
  \<open>loadeddata\<close> fires when the call waits for it, and how the promise of \<open>play()\<close>
  settles (it resolves, it rejects with an \<open>Error\<close> of some message, or it rejects with
  another value).
\<close>

datatype PlayOutcome = Resolves | RejectsError string | RejectsOther

record PlayEnv =
  env_pageOrigin :: string
  env_loadeddata :: bool
  env_play :: PlayOutcome

text \<open>
  \<open>playSegment\<close>. A call whose wait for \<open>loadeddata\<close> never ends leaves \<open>isLoading\<close> set:
  neither \<open>catch\<close> nor \<open>finally\<close> runs.
\<close>

definition playSegment ::
  "PlayEnv \<Rightarrow> string \<Rightarrow> TranscriptionSegment \<Rightarrow> Playback \<Rightarrow> Playback" where
  "playSegment env fileId segment s =
     (let s1 = s\<lparr> isLoading := True, pb_error := None \<rparr> in
      case map_of playbackMockMediaFiles fileId of
        None \<Rightarrow> s1\<lparr> pb_error := Some ''File not found'', isLoading := False \<rparr>
      | Some file \<Rightarrow>
          (let s2 = s1\<lparr> currentFile := Some file, currentSegment := Some segment \<rparr> in
           case audioRef s2 of
             None \<Rightarrow> s2\<lparr> isLoading := False \<rparr>
           | Some el \<Rightarrow>
               (let el1 = (if srcGetter (env_pageOrigin env) (el_src el) \<noteq> mf_streamUrl file
                           then assignSrc (mf_streamUrl file) el else el)
                in if el_readyState el1 \<ge> 2 \<or> env_loadeddata env then
                     (let el2 = el1\<lparr> el_readyState := max 2 (el_readyState el1),
                                    el_currentTime := seg_startTime segment \<rparr>
                      in case env_play env of
                           Resolves \<Rightarrow>
                             s2\<lparr> audioRef := Some (el2\<lparr> el_paused := False \<rparr>),
                                isPlaying := True, isLoading := False \<rparr>
                         | RejectsError msg \<Rightarrow>
                             s2\<lparr> audioRef := Some el2, pb_error := Some msg,
                                isLoading := False \<rparr>
                         | RejectsOther \<Rightarrow>
                             s2\<lparr> audioRef := Some el2,
                                pb_error := Some ''Failed to play segment'',
                                isLoading := False \<rparr>)
                   else s2\<lparr> audioRef := Some el1 \<rparr>)))"

text \<open>The sources that are playing: the source of the element when it is not paused.\<close>

definition playingSources :: "Playback \<Rightarrow> string list" where
  "playingSources s =
     (case audioRef s of
        None \<Rightarrow> []
      | Some el \<Rightarrow> if el_paused el then [] else [el_src el])"

section \<open>The conversation controller (\<open>components/ui/AIButton\<close>)\<close>

text \<open>
  The component is event driven: a click, a browser event of the speech recognizer, a
  timer, the settling of a network promise and the end of the reply audio each run one
  piece of code to completion. The model keeps the React state of the component and of
  the hook \<open>useSpeechRecognition\<close>, the state of the browser objects the code drives
  (the recognizer, the audio elements made by \<open>playAudio\<close>), and the continuations that
  are waiting: timers with the milliseconds they still have to run, and requests in
  flight. A continuation reads the variables of the render that created it, not the
  current ones; these are kept with it as a \<open>Closure\<close>.

  Not modelled: the two notification sounds, the \<open>onClick\<close> prop and the styling.
  The hook \<open>useAudioRecorder\<close> is not among the sources: its \<open>startRecording\<close> and
  \<open>stopRecording\<close> are taken to set and clear a recording flag when they resolve and
  to change nothing when they reject, and to settle before the next event; whether they
  resolve is a parameter of the event that calls them. The recognizer is taken to be
  supported (\<open>recognitionRef.current\<close> is set), \<open>stop()\<close> to take effect at once, and
  \<open>start()\<close> to throw when the recognizer is not inactive, as browsers do.
\<close>

datatype AIState = IDLE | LISTENING | PROCESSING | SPEAKING

datatype RecognizerState = Inactive | Starting | Active

record Closure =
  c_aiState :: AIState
  c_transcript :: string
  c_isListening :: bool
  c_isConversationActive :: bool
  c_currentAudio :: "nat option"

text \<open>An audio element made by \<open>playAudio\<close>, with the \<open>onended\<close> handler set on it.\<close>

record AudioElement =
  au_paused :: bool
  au_currentTime :: real
  au_onended :: "Closure option"

datatype Task =
    ReplyRequest Closure
  | SpeechRequest Closure string
  | FallbackTimer nat Closure nat
  | RestartTimer nat Closure
  | SessionWait nat Closure
  | RevealTimer nat string "string list"

record Session =
  aiState :: AIState
  isGlowing :: bool
  aiResponse :: string
  displayedResponse :: string
  currentAudio :: "nat option"
  isConversationActive :: bool
  isReadyToListen :: bool
  isListening :: bool
  transcript :: string
  recognizer :: RecognizerState
  isRecording :: bool
  audios :: "nat \<Rightarrow> AudioElement"
  audioCount :: nat
  silenceTimer :: "(nat \<times> Closure) option"
  tasks :: "Task list"

definition initialSession :: Session where
  "initialSession = \<lparr> aiState = IDLE, isGlowing = False, aiResponse = [],
     displayedResponse = [], currentAudio = None, isConversationActive = False,
     isReadyToListen = False, isListening = False, transcript = [],
     recognizer = Inactive, isRecording = False,
     audios = (\<lambda>_. \<lparr> au_paused = True, au_currentTime = 0, au_onended = None \<rparr>),
     audioCount = 0, silenceTimer = None, tasks = [] \<rparr>"

text \<open>The variables a function created in the current render reads.\<close>

definition closureOf :: "Session \<Rightarrow> Closure" where
  "closureOf s = \<lparr> c_aiState = aiState s, c_transcript = transcript s,
     c_isListening = isListening s, c_isConversationActive = isConversationActive s,
     c_currentAudio = currentAudio s \<rparr>"

subsection \<open>The hook \<open>useSpeechRecognition\<close>\<close>

definition stopListening :: "Session \<Rightarrow> Session" where
  "stopListening s = s\<lparr> recognizer := Inactive, isListening := False \<rparr>"

definition resetTranscript :: "Session \<Rightarrow> Session" where
  "resetTranscript s = s\<lparr> transcript := [] \<rparr>"

text \<open>
  \<open>startListening\<close>: stops a recognition its render saw listening, clears the transcript
  and starts; a throwing \<open>start()\<close> is caught and clears \<open>isListening\<close>.
\<close>

definition startListening :: "Closure \<Rightarrow> Session \<Rightarrow> Session" where
  "startListening c s =
     (let s1 = (if c_isListening c then s\<lparr> recognizer := Inactive \<rparr> else s);
          s2 = s1\<lparr> transcript := [] \<rparr>
      in if recognizer s2 = Inactive then s2\<lparr> recognizer := Starting \<rparr>
         else s2\<lparr> isListening := False \<rparr>)"

text \<open>
  \<open>recognition.onresult\<close>: the event carries the results from \<open>resultIndex\<close> on, each with
  its text and its \<open>isFinal\<close> flag.
\<close>

definition fullTranscript :: "(string \<times> bool) list \<Rightarrow> string" where
  "fullTranscript results =
     (let finalTranscript = concat (map fst (filter snd results));
          interimTranscript = concat (map fst (filter (\<lambda>r. \<not> snd r) results))
      in if finalTranscript \<noteq> [] then finalTranscript else interimTranscript)"

definition onresult :: "(string \<times> bool) list \<Rightarrow> Session \<Rightarrow> Session" where
  "onresult results s =
     (if fullTranscript results \<noteq> [] then s\<lparr> transcript := fullTranscript results \<rparr>
      else s)"

subsection \<open>Starting and ending a listening session\<close>

text \<open>The \<open>catch\<close> block of \<open>startListeningSession\<close>.\<close>

definition sessionFailed :: "Session \<Rightarrow> Session" where
  "sessionFailed s = s\<lparr> aiState := IDLE, isGlowing := False, isConversationActive := False,
     isReadyToListen := False \<rparr>"

text \<open>\<open>startListeningSession\<close> up to its wait of 500 ms.\<close>

definition startListeningSession :: "Closure \<Rightarrow> bool \<Rightarrow> Session \<Rightarrow> Session" where
  "startListeningSession c stopResolves s =
     (let s1 = stopListening (s\<lparr> isReadyToListen := False \<rparr>)
      in if stopResolves
         then (let s2 = resetTranscript (s1\<lparr> isRecording := False \<rparr>)
               in s2\<lparr> tasks := tasks s2 @ [SessionWait 500 c] \<rparr>)
         else sessionFailed s1)"

text \<open>\<open>startListeningSession\<close> after the wait.\<close>

definition startListeningSession_resume :: "Closure \<Rightarrow> bool \<Rightarrow> Session \<Rightarrow> Session" where
  "startListeningSession_resume c startResolves s =
     (if startResolves
      then (startListening c (s\<lparr> isRecording := True \<rparr>))\<lparr> isReadyToListen := True \<rparr>
      else sessionFailed s)"

definition cleanupListeningSession :: "bool \<Rightarrow> Session \<Rightarrow> Session" where
  "cleanupListeningSession stopResolves s =
     (let s1 = stopListening (s\<lparr> isReadyToListen := False \<rparr>)
      in if stopResolves then resetTranscript (s1\<lparr> isRecording := False \<rparr>) else s1)"

subsection \<open>\<open>handleSpeechEnd\<close>\<close>

text \<open>Up to the request to the reply provider.\<close>

definition handleSpeechEnd :: "Closure \<Rightarrow> Session \<Rightarrow> Session" where
  "handleSpeechEnd c s =
     (if trim (c_transcript c) = [] then s
      else s\<lparr> aiState := PROCESSING, isGlowing := True, isReadyToListen := False,
             tasks := tasks s @ [ReplyRequest c] \<rparr>)"

text \<open>The reply has arrived: it is stored and sent to speech synthesis.\<close>

definition handleSpeechEnd_reply :: "Closure \<Rightarrow> string \<Rightarrow> Session \<Rightarrow> Session" where
  "handleSpeechEnd_reply c response s =
     s\<lparr> aiResponse := response, tasks := tasks s @ [SpeechRequest c response] \<rparr>"

text \<open>
  The audio has arrived: the state becomes Speaking, \<open>playAudio\<close> makes a new element
  and starts it (a rejected \<open>play()\<close> is only logged and leaves it paused), the handle is
  stored, the \<open>onended\<close> handler is set and the fallback timer of 10000 ms is started.
\<close>

definition handleSpeechEnd_speak :: "Closure \<Rightarrow> bool \<Rightarrow> Session \<Rightarrow> Session" where
  "handleSpeechEnd_speak c playResolves s =
     (let audio = audioCount s
      in s\<lparr> aiState := SPEAKING,
            audios := (audios s)(audio :=
              \<lparr> au_paused = \<not> playResolves, au_currentTime = 0, au_onended = Some c \<rparr>),
            audioCount := Suc audio,
            currentAudio := Some audio,
            tasks := tasks s @ [FallbackTimer 10000 c audio] \<rparr>)"

text \<open>The \<open>catch\<close> block: a failure of the reply provider or of speech synthesis.\<close>

definition handleSpeechEnd_catch :: "Session \<Rightarrow> Session" where
  "handleSpeechEnd_catch s =
     (resetTranscript (s\<lparr> aiState := IDLE, isGlowing := False \<rparr>))
       \<lparr> aiResponse := [], displayedResponse := [], isConversationActive := False,
         isReadyToListen := False \<rparr>"

text \<open>The \<open>onended\<close> handler of the reply audio.\<close>

definition audio_onended :: "Closure \<Rightarrow> Session \<Rightarrow> Session" where
  "audio_onended c s =
     (let s1 = s\<lparr> currentAudio := None \<rparr>
      in if c_isConversationActive c
         then s1\<lparr> aiState := LISTENING, isGlowing := True, aiResponse := [],
                 displayedResponse := [], tasks := tasks s1 @ [RestartTimer 1000 c] \<rparr>
         else (resetTranscript (s1\<lparr> aiState := IDLE, isGlowing := False \<rparr>))
                \<lparr> aiResponse := [], displayedResponse := [], isReadyToListen := False \<rparr>)"

text \<open>
  The fallback timer: it compares the \<open>currentAudio\<close> of the render that created
  \<open>handleSpeechEnd\<close> with the element made later.
\<close>

definition fallbackTimeout :: "Closure \<Rightarrow> nat \<Rightarrow> Session \<Rightarrow> Session" where
  "fallbackTimeout c audio s =
     (if c_currentAudio c = Some audio \<and> \<not> au_paused (audios s audio)
      then (case au_onended (audios s audio) of
              None \<Rightarrow> s
            | Some h \<Rightarrow> audio_onended h s)
      else s)"

subsection \<open>\<open>handleClick\<close>\<close>

definition handleClick :: "bool \<Rightarrow> Session \<Rightarrow> Session" where
  "handleClick recorderResolves s =
     (let c = closureOf s in
      case aiState s of
        IDLE \<Rightarrow>
          startListeningSession c recorderResolves
            (s\<lparr> aiState := LISTENING, isGlowing := True, isConversationActive := True \<rparr>)
      | LISTENING \<Rightarrow>
          (let s1 = cleanupListeningSession recorderResolves s
           in if trim (c_transcript c) \<noteq> [] then handleSpeechEnd c s1
              else s1\<lparr> aiState := IDLE, isGlowing := False, aiResponse := [],
                      displayedResponse := [], isConversationActive := False \<rparr>)
      | SPEAKING \<Rightarrow>
          (let s1 = (case currentAudio s of
                       None \<Rightarrow> s
                     | Some a \<Rightarrow>
                         s\<lparr> audios := (audios s)(a :=
                               (audios s a)\<lparr> au_paused := True, au_currentTime := 0 \<rparr>),
                            currentAudio := None \<rparr>);
               s2 = resetTranscript
                      (s1\<lparr> aiState := IDLE, isGlowing := False, aiResponse := [],
                          displayedResponse := [], isConversationActive := False,
                          isReadyToListen := False \<rparr>)
           in cleanupListeningSession recorderResolves s2)
      | PROCESSING \<Rightarrow> s)"

subsection \<open>The silence timer\<close>

text \<open>
  The effect with the dependencies \<open>[isListening, transcript, aiState]\<close>. React runs it
  after a render in which one of them has changed: its cleanup clears the timer, and a
  timer of 3000 ms is set when the recognizer is listening, the state is Listening and
  the trimmed transcript is not empty. When no dependency has changed the timer runs on.
\<close>

definition silenceDeps :: "Session \<Rightarrow> bool \<times> string \<times> AIState" where
  "silenceDeps s = (isListening s, transcript s, aiState s)"

definition silenceEffect :: "Session \<Rightarrow> Session \<Rightarrow> Session" where
  "silenceEffect prev s =
     (if silenceDeps s = silenceDeps prev then s
      else if isListening s \<and> aiState s = LISTENING \<and> trim (transcript s) \<noteq> []
      then s\<lparr> silenceTimer := Some (3000, closureOf s) \<rparr>
      else s\<lparr> silenceTimer := None \<rparr>)"

text \<open>The callback of the timer.\<close>

definition silenceTimeout :: "Closure \<Rightarrow> Session \<Rightarrow> Session" where
  "silenceTimeout c s =
     (if c_isListening c \<and> c_aiState c = LISTENING
      then handleSpeechEnd c (stopListening s)
      else s)"

subsection \<open>The progressive display of the reply\<close>

text \<open>
  \<open>splitIntoChunks\<close>: sentences; if there is at most one, the pieces after commas and
  semicolons; if there is still at most one and the text is longer than 80 characters,
  groups of words of about 60 characters. Blank pieces are dropped.
\<close>

definition groupWords :: "string list \<Rightarrow> string list" where
  "groupWords words =
     (let (chunks, currentChunk) =
        foldl (\<lambda>(chunks, currentChunk) word.
                 if length currentChunk + length word + 1 > 60
                 then (if currentChunk \<noteq> [] then chunks @ [trim currentChunk] else chunks, word)
                 else (chunks, currentChunk @ (if currentChunk \<noteq> [] then '' '' else []) @ word))
          ([], []) words
      in if currentChunk \<noteq> [] then chunks @ [trim currentChunk] else chunks)"

definition splitIntoChunks :: "string \<Rightarrow> string list" where
  "splitIntoChunks text_in =
     (let chunks1 = filter (\<lambda>p. trim p \<noteq> [])
            (splitAfter (\<lambda>c. c = CHR ''.'' \<or> c = CHR ''!'' \<or> c = CHR ''?'') text_in);
          chunks2 = (if length chunks1 \<le> 1
                     then filter (\<lambda>p. trim p \<noteq> [])
                            (splitAfter (\<lambda>c. c = CHR '','' \<or> c = CHR '';'') text_in)
                     else chunks1);
          chunks3 = (if length chunks2 \<le> 1 \<and> length text_in > 80
                     then groupWords (splitSpaces text_in) else chunks2)
      in filter (\<lambda>chunk. trim chunk \<noteq> []) chunks3)"

text \<open>
  \<open>showNextSentence\<close>: the next chunk is appended to what is shown, and a timer of
  1000 ms is set when more chunks remain. Nothing clears these timers.
\<close>

definition showNextSentence :: "string \<Rightarrow> string list \<Rightarrow> Session \<Rightarrow> Session" where
  "showNextSentence displayedText sentences s =
     (case sentences of
        [] \<Rightarrow> s
      | sentence # rest \<Rightarrow>
          (let shown = displayedText @ (if displayedText \<noteq> [] then '' '' else []) @ sentence;
               s1 = s\<lparr> displayedResponse := shown \<rparr>
           in if rest \<noteq> [] then s1\<lparr> tasks := tasks s1 @ [RevealTimer 1000 shown rest] \<rparr>
              else s1))"

text \<open>
  The effect with the dependencies \<open>[aiState, aiResponse]\<close>: entering the Speaking state
  with a reply, or a new reply while speaking, starts the display; in any other state
  the displayed reply is cleared.
\<close>

definition displayEffect :: "Session \<Rightarrow> Session \<Rightarrow> Session" where
  "displayEffect prev s =
     (if (aiState s, aiResponse s) = (aiState prev, aiResponse prev) then s
      else if aiState s = SPEAKING \<and> aiResponse s \<noteq> [] then
        (let s1 = s\<lparr> displayedResponse := [] \<rparr>;
             sentences = splitIntoChunks (aiResponse s)
         in if sentences = [] then s1\<lparr> displayedResponse := aiResponse s \<rparr>
            else showNextSentence [] sentences s1)
      else if aiState s \<noteq> SPEAKING then s\<lparr> displayedResponse := [] \<rparr>
      else s)"

subsection \<open>Events\<close>

datatype Event =
    Click bool
  | RecognitionStart
  | RecognitionResult "(string \<times> bool) list"
  | RecognitionError
  | RecognitionEnd
  | Elapse nat
  | SilenceTimeout
  | TimerFires nat bool
  | ReplyArrives nat string
  | ReplyFails nat
  | SpeechArrives nat bool
  | SpeechFails nat
  | AudioEnded nat

fun taskRemaining :: "Task \<Rightarrow> nat option" where
  "taskRemaining (FallbackTimer r c a) = Some r"
| "taskRemaining (RestartTimer r c) = Some r"
| "taskRemaining (SessionWait r c) = Some r"
| "taskRemaining (RevealTimer r shown rest) = Some r"
| "taskRemaining (ReplyRequest c) = None"
| "taskRemaining (SpeechRequest c r) = None"

fun taskElapse :: "nat \<Rightarrow> Task \<Rightarrow> Task" where
  "taskElapse d (FallbackTimer r c a) = FallbackTimer (r - d) c a"
| "taskElapse d (RestartTimer r c) = RestartTimer (r - d) c"
| "taskElapse d (SessionWait r c) = SessionWait (r - d) c"
| "taskElapse d (RevealTimer r shown rest) = RevealTimer (r - d) shown rest"
| "taskElapse d (ReplyRequest c) = ReplyRequest c"
| "taskElapse d (SpeechRequest c r) = SpeechRequest c r"

text \<open>Time may advance by \<open>d\<close> when no timer is due earlier.\<close>

definition mayElapse :: "nat \<Rightarrow> Session \<Rightarrow> bool" where
  "mayElapse d s =
     ((case silenceTimer s of None \<Rightarrow> True | Some (r, c) \<Rightarrow> d \<le> r) \<and>
      list_all (\<lambda>t. case taskRemaining t of None \<Rightarrow> True | Some r \<Rightarrow> d \<le> r) (tasks s))"

definition elapse :: "nat \<Rightarrow> Session \<Rightarrow> Session" where
  "elapse d s =
     s\<lparr> silenceTimer := map_option (\<lambda>(r, c). (r - d, c)) (silenceTimer s),
        tasks := map (taskElapse d) (tasks s) \<rparr>"

text \<open>Removing the \<open>i\<close>-th waiting continuation.\<close>

definition dropTask :: "nat \<Rightarrow> Session \<Rightarrow> Session" where
  "dropTask i s = s\<lparr> tasks := take i (tasks s) @ drop (Suc i) (tasks s) \<rparr>"

text \<open>
  What one event runs. An event that cannot happen in the state (a timer that is not
  due, a recognizer event while the recognizer is inactive, the end of an audio that is
  not playing) changes nothing.
\<close>

definition dispatch :: "Event \<Rightarrow> Session \<Rightarrow> Session" where
  "dispatch e s =
     (case e of
        Click recorderResolves \<Rightarrow> handleClick recorderResolves s
      | RecognitionStart \<Rightarrow>
          (if recognizer s = Starting then s\<lparr> recognizer := Active, isListening := True \<rparr>
           else s)
      | RecognitionResult results \<Rightarrow>
          (if recognizer s = Active then onresult results s else s)
      | RecognitionError \<Rightarrow>
          (if recognizer s \<noteq> Inactive then s\<lparr> isListening := False \<rparr> else s)
      | RecognitionEnd \<Rightarrow>
          (if recognizer s \<noteq> Inactive then s\<lparr> recognizer := Inactive, isListening := False \<rparr>
           else s)
      | Elapse d \<Rightarrow> (if mayElapse d s then elapse d s else s)
      | SilenceTimeout \<Rightarrow>
          (case silenceTimer s of
             None \<Rightarrow> s
           | Some (r, c) \<Rightarrow>
               if r = 0 then silenceTimeout c (s\<lparr> silenceTimer := None \<rparr>) else s)
      | TimerFires i recorderResolves \<Rightarrow>
          (if i < length (tasks s) then
             (case tasks s ! i of
                FallbackTimer r c a \<Rightarrow>
                  if r = 0 then fallbackTimeout c a (dropTask i s) else s
              | RestartTimer r c \<Rightarrow>
                  if r = 0 then startListeningSession c recorderResolves (dropTask i s) else s
              | SessionWait r c \<Rightarrow>
                  if r = 0 then startListeningSession_resume c recorderResolves (dropTask i s)
                  else s
              | RevealTimer r shown rest \<Rightarrow>
                  if r = 0 then showNextSentence shown rest (dropTask i s) else s
              | ReplyRequest c \<Rightarrow> s
              | SpeechRequest c r \<Rightarrow> s)
           else s)
      | ReplyArrives i response \<Rightarrow>
          (if i < length (tasks s) then
             (case tasks s ! i of
                ReplyRequest c \<Rightarrow> handleSpeechEnd_reply c response (dropTask i s)
              | _ \<Rightarrow> s)
           else s)
      | ReplyFails i \<Rightarrow>
          (if i < length (tasks s) then
             (case tasks s ! i of
                ReplyRequest c \<Rightarrow> handleSpeechEnd_catch (dropTask i s)
              | _ \<Rightarrow> s)
           else s)
      | SpeechArrives i playResolves \<Rightarrow>
          (if i < length (tasks s) then
             (case tasks s ! i of
                SpeechRequest c r \<Rightarrow> handleSpeechEnd_speak c playResolves (dropTask i s)
              | _ \<Rightarrow> s)
           else s)
      | SpeechFails i \<Rightarrow>
          (if i < length (tasks s) then
             (case tasks s ! i of
                SpeechRequest c r \<Rightarrow> handleSpeechEnd_catch (dropTask i s)
              | _ \<Rightarrow> s)
           else s)
      | AudioEnded a \<Rightarrow>
          (if a < audioCount s \<and> \<not> au_paused (audios s a) then
             (let s1 = s\<lparr> audios := (audios s)(a := (audios s a)\<lparr> au_paused := True \<rparr>) \<rparr>
              in case au_onended (audios s a) of
                   None \<Rightarrow> s1
                 | Some c \<Rightarrow> audio_onended c s1)
           else s))"

text \<open>One event: its handler, then the render and the two effects.\<close>

definition step :: "Event \<Rightarrow> Session \<Rightarrow> Session" where
  "step e s = displayEffect s (silenceEffect s (dispatch e s))"

definition run :: "Event list \<Rightarrow> Session \<Rightarrow> Session" where
  "run es s = foldl (\<lambda>s e. step e s) s es"

text \<open>The two activities of the invariant.\<close>

definition captureActive :: "Session \<Rightarrow> bool" where
  "captureActive s = (recognizer s \<noteq> Inactive)"

definition speechOutputActive :: "Session \<Rightarrow> bool" where
  "speechOutputActive s = (\<exists>a < audioCount s. \<not> au_paused (audios s a))"

subsection \<open>The invariant of the silence timer\<close>


subsection \<open>Sample runs\<close>

text \<open>
  One turn of a conversation: the user clicks, the session starts after its wait of
  500 ms, the recognizer reports that it has started and delivers the interim text
  \<open>tell me about AI\<close>; after 3000 ms of silence the turn ends by itself, the reply
  arrives, and its audio starts.
\<close>

definition sampleReply :: string where
  "sampleReply = ''AI is a broad field.''"

definition turn_listening :: "Event list" where
  "turn_listening = [Click True, Elapse 500, TimerFires 0 True, RecognitionStart,
     RecognitionResult [(''tell me about AI'', False)]]"

definition turn_processing :: "Event list" where
  "turn_processing = turn_listening @ [Elapse 3000, SilenceTimeout, ReplyArrives 0 sampleReply]"

definition turn_speaking :: "Event list" where
  "turn_speaking = turn_processing @ [SpeechArrives 0 True]"

text \<open>
  The run continues: the audio ends after 4000 ms, which schedules the restart of the
  session 1000 ms later; the user clicks 300 ms after the end of the audio; the restart
  timer fires, the session starts after its wait, the recognizer starts; then the reply
  to the click's request and its audio arrive.
\<close>

definition race_trace :: "Event list" where
  "race_trace = turn_speaking @ [Elapse 4000, AudioEnded 0, Elapse 300, Click True,
     Elapse 700, TimerFires 1 True, Elapse 500, TimerFires 2 True, RecognitionStart,
     ReplyArrives 1 sampleReply, SpeechArrives 1 True]"

text \<open>
  The provider after mounting: the element has no source yet. The page is served from
  \<open>http://localhost:5173\<close>.
\<close>

definition mountedPlayback :: Playback where
  "mountedPlayback = \<lparr> currentFile = None, isPlaying = False, pb_currentTime = 0,
     pb_duration = 0, currentSegment = None, isLoading = False, pb_error = None,
     audioRef = Some \<lparr> el_src = [], el_readyState = 0, el_currentTime = 0,
       el_paused = True, el_loads = 0 \<rparr> \<rparr>"

definition pageEnv :: "bool \<Rightarrow> PlayOutcome \<Rightarrow> PlayEnv" where
  "pageEnv loadeddata outcome = \<lparr> env_pageOrigin = ''http://localhost:5173'',
     env_loadeddata = loadeddata, env_play = outcome \<rparr>"

section \<open>Properties of the resolver\<close>

lemma startsWith_iff: "startsWith s p \<longleftrightarrow> (\<exists>b. s = p @ b)"
  by (induction s p rule: startsWith.induct) auto


lemma startsWith_append: "startsWith (p @ s) p"
  by (simp add: startsWith_iff)

lemma includes_str_iff: "includes_str s p \<longleftrightarrow> (\<exists>a b. s = a @ p @ b)"
proof (induction s)
  case Nil
  then show ?case by (simp add: startsWith_iff)
next
  case (Cons c cs)
  show ?case
  proof
    assume "includes_str (c # cs) p"
    then consider "startsWith (c # cs) p" | "includes_str cs p" by auto
    then show "\<exists>a b. c # cs = a @ p @ b"
    proof cases
      case 1
      then obtain b where "c # cs = p @ b" by (auto simp: startsWith_iff)
      then have "c # cs = [] @ p @ b" by simp
      then show ?thesis by blast
    next
      case 2
      then obtain a b where "cs = a @ p @ b" using Cons.IH by blast
      then have "c # cs = (c # a) @ p @ b" by simp
      then show ?thesis by blast
    qed
  next
    assume "\<exists>a b. c # cs = a @ p @ b"
    then obtain a b where ab: "c # cs = a @ p @ b" by blast
    show "includes_str (c # cs) p"
    proof (cases a)
      case Nil
      with ab have "startsWith (c # cs) p" by (auto simp: startsWith_iff)
      then show ?thesis by simp
    next
      case (Cons a0 as)
      with ab have "cs = as @ p @ b" by simp
      then have "includes_str cs p" using Cons.IH by blast
      then show ?thesis by simp
    qed
  qed
qed

lemma hasPlayIntent_iff:
  "hasPlayIntent m \<longleftrightarrow>
     (\<exists>p \<in> set [''play'', ''start'', ''listen'', ''jump to'', ''go to'', ''skip to'', ''hear'',
        ''listen to'', ''show me'', ''find'', ''locate'']. includes_str m p)"
  by (simp add: hasPlayIntent_def playbackIntents_def)

lemmas catalog_defs = mockSegments_file_1_def mockSegments_file_2_def
lemmas lower_defs = toLowerCase_def toLowerChar_def
lemmas topic_defs = topicStartup_def topicAI_def topicTeam_def

text \<open>
  Claim C1. Every utterance whose lowercased text contains one of the eleven lexicon
  patterns gets a response with a playback action and a reply that announces playback;
  when none of the nine topic keywords occurs in it, the action targets the first
  segment of \<open>file-1\<close> and the reply is the default text, which says that a popular
  segment is played.
\<close>

theorem playback_request_always_has_action:
  assumes "\<exists>p \<in> set [''play'', ''start'', ''listen'', ''jump to'', ''go to'', ''skip to'', ''hear'',
        ''listen to'', ''show me'', ''find'', ''locate''].
        includes_str (toLowerCase (req_message request)) p"
  shows "resp_playbackAction (sendChatMessage now request) \<noteq> None \<and>
    startsWith (resp_response (sendChatMessage now request))
      (headphone @ '' Starting playback: '') \<and>
    ((\<forall>k \<in> set [''startup'', ''funding'', ''venture'', ''ai'', ''artificial intelligence'',
        ''machine learning'', ''team'', ''founding'', ''investors''].
        \<not> includes_str (toLowerCase (req_message request)) k) \<longrightarrow>
      resp_playbackAction (sendChatMessage now request) =
        Some \<lparr> pa_type = play_segment, pa_fileId = ''file-1'', pa_segment = seg_1,
          pa_intent = ''User requested playback - showing popular content'' \<rparr> \<and>
      resp_response (sendChatMessage now request) = replyDefault \<and>
      includes_str (resp_response (sendChatMessage now request))
        ''Here's one of our most popular segments'')"
proof -
  have h: "hasPlayIntent (toLowerCase (req_message request))"
    using assms by (simp only: hasPlayIntent_iff)
  have pop: "includes_str replyDefault ''Here's one of our most popular segments''"
    by (simp add: replyDefault_def headphone_def)
  have r: "startsWith (replyStartup g) (headphone @ '' Starting playback: '')"
    "startsWith (replyAI g) (headphone @ '' Starting playback: '')"
    "startsWith (replyTeam g) (headphone @ '' Starting playback: '')"
    "startsWith replyDefault (headphone @ '' Starting playback: '')" for g
    by (simp_all add: replyStartup_def replyAI_def replyTeam_def replyDefault_def
        headphone_def)
  show ?thesis
    using h pop r
    by (simp add: sendChatMessage_def chatLocals_def Let_def topic_defs catalog_defs)
qed

theorem playback_request_always_has_action_witness:
  "(\<exists>p \<in> set [''play'', ''start'', ''listen'', ''jump to'', ''go to'', ''skip to'', ''hear'',
        ''listen to'', ''show me'', ''find'', ''locate''].
        includes_str (toLowerCase ''Play something'') p) \<and>
   \<not> (\<exists>k \<in> set [''startup'', ''funding'', ''venture'', ''ai'', ''artificial intelligence'',
        ''machine learning'', ''team'', ''founding'', ''investors''].
        includes_str (toLowerCase ''Play something'') k) \<and>
   resp_playbackAction (sendChatMessage ''2024-01-20T10:00:00.000Z''
       \<lparr> req_message = ''Play something'', req_conversationId = None, req_context = None \<rparr>) =
     Some \<lparr> pa_type = play_segment, pa_fileId = ''file-1'', pa_segment = seg_1,
          pa_intent = ''User requested playback - showing popular content'' \<rparr> \<and>
   resp_response (sendChatMessage ''2024-01-20T10:00:00.000Z''
       \<lparr> req_message = ''Play something'', req_conversationId = None, req_context = None \<rparr>) =
     replyDefault"
proof -
  have a: "\<exists>p \<in> set [''play'', ''start'', ''listen'', ''jump to'', ''go to'', ''skip to'', ''hear'',
        ''listen to'', ''show me'', ''find'', ''locate''].
        includes_str (toLowerCase (req_message
          \<lparr> req_message = ''Play something'', req_conversationId = None, req_context = None \<rparr>)) p"
    by (simp add: lower_defs)
  have b: "\<forall>k \<in> set [''startup'', ''funding'', ''venture'', ''ai'', ''artificial intelligence'',
        ''machine learning'', ''team'', ''founding'', ''investors''].
        \<not> includes_str (toLowerCase ''Play something'') k"
    by (simp add: lower_defs)
  show ?thesis
    using a b playback_request_always_has_action [OF a, of "''2024-01-20T10:00:00.000Z''"]
    by simp
qed

text \<open>
  Claim C10. Topic routing is substring containment: a playback request whose lowercased
  text has no occurrence of \<open>startup\<close>, \<open>funding\<close> or \<open>venture\<close> but contains the letters
  \<open>ai\<close> anywhere, also inside a longer word, is answered with the segment from 60 to 120
  of \<open>file-2\<close>.
\<close>

theorem ai_substring_routes_to_file_2:
  assumes "\<exists>p \<in> set [''play'', ''start'', ''listen'', ''jump to'', ''go to'', ''skip to'', ''hear'',
        ''listen to'', ''show me'', ''find'', ''locate''].
        includes_str (toLowerCase (req_message request)) p"
    and "\<forall>k \<in> set [''startup'', ''funding'', ''venture''].
        \<not> (\<exists>a b. toLowerCase (req_message request) = a @ k @ b)"
    and "\<exists>a b. toLowerCase (req_message request) = a @ ''ai'' @ b"
  shows "\<exists>act. resp_playbackAction (sendChatMessage now request) = Some act \<and>
     pa_type act = play_segment \<and> pa_fileId act = ''file-2'' \<and>
     seg_startTime (pa_segment act) = 60 \<and> seg_endTime (pa_segment act) = 120"
proof -
  have h: "hasPlayIntent (toLowerCase (req_message request))"
    using assms(1) by (simp only: hasPlayIntent_iff)
  have s: "\<not> topicStartup (toLowerCase (req_message request))"
    using assms(2) by (simp add: topicStartup_def includes_str_iff)
  have a: "topicAI (toLowerCase (req_message request))"
    using assms(3) by (simp add: topicAI_def includes_str_iff)
  show ?thesis
    using h s a
    by (simp add: sendChatMessage_def chatLocals_def Let_def catalog_defs seg_4_def)
qed

theorem ai_substring_routes_to_file_2_witness:
  "(\<exists>p \<in> set [''play'', ''start'', ''listen'', ''jump to'', ''go to'', ''skip to'', ''hear'',
        ''listen to'', ''show me'', ''find'', ''locate''].
        includes_str (toLowerCase ''Play it again'') p) \<and>
   \<not> (\<exists>k \<in> set [''startup'', ''funding'', ''venture''].
        includes_str (toLowerCase ''Play it again'') k) \<and>
   toLowerCase ''Play it again'' = ''play it ag'' @ ''ai'' @ ''n'' \<and>
   (\<exists>act. resp_playbackAction (sendChatMessage ''2024-01-20T10:00:00.000Z''
        \<lparr> req_message = ''Play it again'', req_conversationId = None, req_context = None \<rparr>)
        = Some act \<and>
      pa_type act = play_segment \<and> pa_fileId act = ''file-2'' \<and>
      seg_startTime (pa_segment act) = 60 \<and> seg_endTime (pa_segment act) = 120)"
proof -
  let ?r = "\<lparr> req_message = ''Play it again'', req_conversationId = None, req_context = None \<rparr>"
  have a: "\<exists>p \<in> set [''play'', ''start'', ''listen'', ''jump to'', ''go to'', ''skip to'', ''hear'',
        ''listen to'', ''show me'', ''find'', ''locate''].
        includes_str (toLowerCase (req_message ?r)) p"
    by (simp add: lower_defs)
  have b0: "\<forall>k \<in> set [''startup'', ''funding'', ''venture''].
        \<not> includes_str (toLowerCase ''Play it again'') k"
    by (simp add: lower_defs)
  have b: "\<forall>k \<in> set [''startup'', ''funding'', ''venture''].
        \<not> (\<exists>a b. toLowerCase (req_message ?r) = a @ k @ b)"
    using b0 by (simp add: includes_str_iff)
  have c0: "toLowerCase ''Play it again'' = ''play it ag'' @ ''ai'' @ ''n''"
    by (simp add: lower_defs)
  have c: "\<exists>a b. toLowerCase (req_message ?r) = a @ ''ai'' @ b"
    using c0 by (simp only: ChatMessageRequest.simps) blast
  show ?thesis
    using a b0 c0 ai_substring_routes_to_file_2 [OF a b c, of "''2024-01-20T10:00:00.000Z''"]
    by simp
qed

text \<open>
  Claim C8. The utterance \<open>play the part about startup funding\<close> is answered with the
  segment from 120 to 180 of \<open>file-1\<close> (confidence 0.94) and a reply that quotes the first
  80 characters of its text; \<open>file-2\<close> holds a machine-learning segment of lower
  confidence.
\<close>

theorem startup_funding_scenario:
  "resp_playbackAction (sendChatMessage now
      \<lparr> req_message = ''play the part about startup funding'',
        req_conversationId = cid, req_context = ctx \<rparr>) =
     Some \<lparr> pa_type = play_segment, pa_fileId = ''file-1'', pa_segment = seg_1,
       pa_intent = ''User requested to play startup funding content'' \<rparr> \<and>
   seg_startTime seg_1 = 120 \<and> seg_endTime seg_1 = 180 \<and> seg_confidence seg_1 = 0.94 \<and>
   map_of mockSegments ''file-1'' = Some [seg_1, seg_2, seg_3] \<and>
   map_of mockSegments ''file-2'' = Some [seg_4, seg_5] \<and>
   includes_str (toLowerCase (seg_text seg_5)) ''machine learning'' \<and>
   seg_confidence seg_5 < seg_confidence seg_1 \<and>
   resp_response (sendChatMessage now
      \<lparr> req_message = ''play the part about startup funding'',
        req_conversationId = cid, req_context = ctx \<rparr>) =
     headphone @ '' Starting playback: \"'' @
     ''When it comes to startup funding, timing and preparation are absolutely crucial '' @
     ''...\" I found the perfect segment about startup funding strategies. This discusses the crucial timing and preparation needed for successful fundraising.'' \<and>
   substring0 (seg_text seg_1) 80 =
     ''When it comes to startup funding, timing and preparation are absolutely crucial ''"
proof -
  have h: "hasPlayIntent (toLowerCase ''play the part about startup funding'')"
    by (simp add: hasPlayIntent_def playbackIntents_def lower_defs)
  have t: "topicStartup (toLowerCase ''play the part about startup funding'')"
    by (simp add: topicStartup_def lower_defs)
  have p: "substring0 (seg_text seg_1) 80 =
     ''When it comes to startup funding, timing and preparation are absolutely crucial ''"
    by (simp add: substring0_def seg_1_def)
  have m: "includes_str (toLowerCase (seg_text seg_5)) ''machine learning''"
    by (simp add: seg_5_def lower_defs)
  have c: "seg_confidence seg_5 < seg_confidence seg_1" "seg_confidence seg_1 = 0.94"
    "seg_startTime seg_1 = 120" "seg_endTime seg_1 = 180"
    by (simp_all add: seg_1_def seg_5_def)
  show ?thesis
    using h t p m c
    by (simp add: sendChatMessage_def chatLocals_def Let_def catalog_defs mockSegments_def
        replyStartup_def)
qed

text \<open>
  Claim C9. The utterance \<open>what do you think about weather today\<close> contains no lexicon
  pattern and no topic keyword; the response is the generic reply and carries no
  playback action.
\<close>

theorem weather_scenario:
  "\<not> hasPlayIntent (toLowerCase ''what do you think about weather today'') \<and>
   \<not> (\<exists>k \<in> set [''startup'', ''business'', ''funding'', ''ai'', ''technology'',
       ''artificial intelligence'', ''meditation'', ''wellness''].
       includes_str (toLowerCase ''what do you think about weather today'') k) \<and>
   resp_response (sendChatMessage now
      \<lparr> req_message = ''what do you think about weather today'',
        req_conversationId = cid, req_context = ctx \<rparr>) = replyChatGeneric \<and>
   resp_playbackAction (sendChatMessage now
      \<lparr> req_message = ''what do you think about weather today'',
        req_conversationId = cid, req_context = ctx \<rparr>) = None"
proof -
  have h: "\<not> hasPlayIntent (toLowerCase ''what do you think about weather today'')"
    by (simp add: hasPlayIntent_def playbackIntents_def lower_defs)
  have k: "\<not> (\<exists>k \<in> set [''startup'', ''business'', ''funding'', ''ai'', ''technology'',
       ''artificial intelligence'', ''meditation'', ''wellness''].
       includes_str (toLowerCase ''what do you think about weather today'') k)"
    by (simp add: lower_defs)
  show ?thesis
    using h k by (simp add: sendChatMessage_def chatLocals_def Let_def)
qed

text \<open>
  Claim C2, as stated, fails: for \<open>play investors\<close> the first and the third segment of
  \<open>file-1\<close> have the same keyword overlap, the first has the higher confidence and the
  earlier start, and the third is selected.
\<close>

theorem tie_break_counterexample:
  "hasPlayIntent (toLowerCase ''play investors'') \<and>
   (''file-1'', seg_1) \<in> set catalogSegments \<and> (''file-1'', seg_3) \<in> set catalogSegments \<and>
   spec_score playbackMockMediaFiles ''play investors'' (''file-1'', seg_1) = 1 \<and>
   spec_score playbackMockMediaFiles ''play investors'' (''file-1'', seg_3) = 1 \<and>
   seg_confidence seg_3 < seg_confidence seg_1 \<and>
   seg_startTime seg_1 < seg_startTime seg_3 \<and>
   map_option (\<lambda>act. (pa_fileId act, pa_segment act))
     (resp_playbackAction (sendChatMessage ''2024-01-20T10:00:00.000Z''
        \<lparr> req_message = ''play investors'', req_conversationId = None, req_context = None \<rparr>)) =
     Some (''file-1'', seg_3)"
proof -
  have h: "hasPlayIntent (toLowerCase ''play investors'')"
    by (simp add: hasPlayIntent_def playbackIntents_def lower_defs)
  have t: "\<not> topicStartup (toLowerCase ''play investors'')"
    "\<not> topicAI (toLowerCase ''play investors'')"
    "topicTeam (toLowerCase ''play investors'')"
    by (simp_all add: topic_defs lower_defs)
  have kw: "spec_keywords ''play investors'' = [''play'', ''investors'']"
    by (simp add: spec_keywords_def lower_defs)
  have s1: "spec_score playbackMockMediaFiles ''play investors'' (''file-1'', seg_1) = 1"
    unfolding spec_score_def kw by (simp add: seg_1_def playbackMockMediaFiles_def lower_defs)
  have s3: "spec_score playbackMockMediaFiles ''play investors'' (''file-1'', seg_3) = 1"
    unfolding spec_score_def kw by (simp add: seg_3_def playbackMockMediaFiles_def lower_defs)
  have m: "(''file-1'', seg_1) \<in> set catalogSegments" "(''file-1'', seg_3) \<in> set catalogSegments"
    by (simp_all add: catalogSegments_def mockSegments_def catalog_defs)
  have c: "seg_confidence seg_3 < seg_confidence seg_1" "seg_startTime seg_1 < seg_startTime seg_3"
    by (simp_all add: seg_1_def seg_3_def)
  show ?thesis
    using h t s1 s3 m c
    by (simp add: sendChatMessage_def chatLocals_def Let_def catalog_defs)
qed

text \<open>
  Claim C2, amended. The selected segment of a playback request is fixed by the first
  topic group, in the order startup, AI, team, that occurs in the lowercased utterance,
  with the first segment of \<open>file-1\<close> as the default; confidence, start time and file id
  are not compared. The selection depends on the lowercased utterance alone, so it is
  reproducible.
\<close>

theorem selection_by_fixed_priority:
  assumes "hasPlayIntent (toLowerCase (req_message request))"
  shows "map_option (\<lambda>act. (pa_fileId act, pa_segment act))
       (resp_playbackAction (sendChatMessage now request)) =
     Some (if topicStartup (toLowerCase (req_message request)) then (''file-1'', seg_1)
           else if topicAI (toLowerCase (req_message request)) then (''file-2'', seg_4)
           else if topicTeam (toLowerCase (req_message request)) then (''file-1'', seg_3)
           else (''file-1'', seg_1)) \<and>
     (\<forall>now' request'.
        toLowerCase (req_message request') = toLowerCase (req_message request) \<longrightarrow>
        resp_playbackAction (sendChatMessage now' request') =
        resp_playbackAction (sendChatMessage now request))"
  using assms by (simp add: sendChatMessage_def chatLocals_def Let_def catalog_defs)

theorem selection_by_fixed_priority_witness:
  "hasPlayIntent (toLowerCase ''play investors'') \<and>
   map_option (\<lambda>act. (pa_fileId act, pa_segment act))
     (resp_playbackAction (sendChatMessage ''2024-01-20T10:00:00.000Z''
        \<lparr> req_message = ''play investors'', req_conversationId = None, req_context = None \<rparr>)) =
     Some (''file-1'', seg_3) \<and>
   resp_playbackAction (sendChatMessage ''2024-01-21T08:30:00.000Z''
        \<lparr> req_message = ''PLAY Investors'', req_conversationId = Some ''7'', req_context = None \<rparr>) =
   resp_playbackAction (sendChatMessage ''2024-01-20T10:00:00.000Z''
        \<lparr> req_message = ''play investors'', req_conversationId = None, req_context = None \<rparr>)"
proof -
  let ?r = "\<lparr> req_message = ''play investors'', req_conversationId = None, req_context = None \<rparr>"
  let ?r' = "\<lparr> req_message = ''PLAY Investors'', req_conversationId = Some ''7'', req_context = None \<rparr>"
  have h: "hasPlayIntent (toLowerCase (req_message ?r))"
    by (simp add: hasPlayIntent_def playbackIntents_def lower_defs)
  have t: "\<not> topicStartup (toLowerCase ''play investors'')"
    "\<not> topicAI (toLowerCase ''play investors'')"
    "topicTeam (toLowerCase ''play investors'')"
    by (simp_all add: topic_defs lower_defs)
  have e: "toLowerCase (req_message ?r') = toLowerCase (req_message ?r)"
    by (simp add: lower_defs)
  note th = selection_by_fixed_priority [OF h, of "''2024-01-20T10:00:00.000Z''"]
  have sel: "map_option (\<lambda>act. (pa_fileId act, pa_segment act))
       (resp_playbackAction (sendChatMessage ''2024-01-20T10:00:00.000Z'' ?r)) =
     Some (''file-1'', seg_3)"
    using th [THEN conjunct1] t by simp
  have "resp_playbackAction (sendChatMessage ''2024-01-21T08:30:00.000Z'' ?r') =
        resp_playbackAction (sendChatMessage ''2024-01-20T10:00:00.000Z'' ?r)"
    by (rule th [THEN conjunct2, rule_format, OF e])
  with h sel show ?thesis by simp
qed

section \<open>Properties of the conversation controller\<close>

lemmas hook_defs = stopListening_def resetTranscript_def startListening_def onresult_def
lemmas session_defs = sessionFailed_def startListeningSession_def
  startListeningSession_resume_def cleanupListeningSession_def
lemmas speech_defs = handleSpeechEnd_def handleSpeechEnd_reply_def handleSpeechEnd_speak_def
  handleSpeechEnd_catch_def audio_onended_def fallbackTimeout_def
lemmas ctrl_defs = hook_defs session_defs speech_defs handleClick_def silenceTimeout_def
  dropTask_def










lemma run_Nil: "run [] s = s" by (simp add: run_def)
lemma run_Cons: "run (e # es) s = run es (step e s)" by (simp add: run_def)
lemma run_snoc: "run (es @ [e]) s = step e (run es s)" by (simp add: run_def)

lemmas step_defs = step_def dispatch_def silenceEffect_def silenceDeps_def closureOf_def
  mayElapse_def elapse_def displayEffect_def

lemmas trace_defs = turn_listening_def turn_processing_def turn_speaking_def race_trace_def
  sampleReply_def
lemma splitIntoChunks_sampleReply: "splitIntoChunks ''AI is a broad field.'' = [''AI is a broad field.'']"
  by (simp add: splitIntoChunks_def trim_def isSpace_def)

lemmas eval_defs = run_Nil run_Cons step_defs ctrl_defs initialSession_def trim_def isSpace_def
  fullTranscript_def splitIntoChunks_sampleReply showNextSentence_def Let_def

text \<open>
  Claim C3 fails on the run \<open>race_trace\<close>: at its end the state is Speaking and the
  second reply audio is playing while the recognizer, restarted by the timer that the
  end of the first audio had set, is active. Already in the first turn, which the
  silence timer ended, the reply is spoken while the recorder is running: the callback of
  the timer stops the recognizer only.
\<close>

theorem listening_while_speaking_trace:
  "aiState (run turn_speaking initialSession) = SPEAKING \<and>
   speechOutputActive (run turn_speaking initialSession) \<and>
   recognizer (run turn_speaking initialSession) = Inactive \<and>
   isRecording (run turn_speaking initialSession) \<and>
   aiState (run race_trace initialSession) = SPEAKING \<and>
   recognizer (run race_trace initialSession) = Active \<and>
   isListening (run race_trace initialSession) \<and>
   isRecording (run race_trace initialSession) \<and>
   currentAudio (run race_trace initialSession) = Some 1 \<and>
   \<not> au_paused (audios (run race_trace initialSession) 1) \<and>
   captureActive (run race_trace initialSession) \<and>
   speechOutputActive (run race_trace initialSession)"
proof -
  have a: "aiState (run race_trace initialSession) = SPEAKING"
    by (simp add: trace_defs eval_defs)
  have b: "recognizer (run race_trace initialSession) = Active"
    by (simp add: trace_defs eval_defs)
  have c: "isListening (run race_trace initialSession)"
    "isRecording (run race_trace initialSession)"
    by (simp_all add: trace_defs eval_defs)
  have d: "currentAudio (run race_trace initialSession) = Some 1"
    by (simp add: trace_defs eval_defs)
  have e: "\<not> au_paused (audios (run race_trace initialSession) 1)"
    by (simp add: trace_defs eval_defs)
  have f: "audioCount (run race_trace initialSession) = 2"
    by (simp add: trace_defs eval_defs)
  have g: "speechOutputActive (run race_trace initialSession)"
    unfolding speechOutputActive_def using e f by (intro exI [of _ 1]) simp
  have h: "aiState (run turn_speaking initialSession) = SPEAKING"
    "recognizer (run turn_speaking initialSession) = Inactive"
    "isRecording (run turn_speaking initialSession)"
    by (simp_all add: trace_defs eval_defs)
  have i: "\<not> au_paused (audios (run turn_speaking initialSession) 0)"
    "audioCount (run turn_speaking initialSession) = 1"
    by (simp_all add: trace_defs eval_defs)
  have j: "speechOutputActive (run turn_speaking initialSession)"
    unfolding speechOutputActive_def using i by (intro exI [of _ 0]) simp
  from a b c d e g h j show ?thesis by (simp add: captureActive_def)
qed

text \<open>
  Claim C4. A click in the Speaking state pauses the reply audio, rewinds it to 0 and
  clears the handle; the state becomes Idle, the conversation is no longer active, and
  the transcript, the reply and the displayed reply are empty. The recognizer is
  stopped as well.
\<close>

theorem stop_while_speaking:
  assumes "aiState s = SPEAKING"
  shows "aiState (step (Click r) s) = IDLE \<and>
    \<not> isConversationActive (step (Click r) s) \<and>
    currentAudio (step (Click r) s) = None \<and>
    transcript (step (Click r) s) = [] \<and>
    displayedResponse (step (Click r) s) = [] \<and>
    aiResponse (step (Click r) s) = [] \<and>
    recognizer (step (Click r) s) = Inactive \<and>
    \<not> isListening (step (Click r) s) \<and>
    silenceTimer (step (Click r) s) = None \<and>
    (case currentAudio s of
       None \<Rightarrow> audios (step (Click r) s) = audios s
     | Some a \<Rightarrow> au_paused (audios (step (Click r) s) a) \<and>
         au_currentTime (audios (step (Click r) s) a) = 0)"
  using assms
  by (simp add: step_defs ctrl_defs Let_def split: option.splits)

theorem stop_while_speaking_witness:
  "aiState (run turn_speaking initialSession) = SPEAKING \<and>
   currentAudio (run turn_speaking initialSession) = Some 0 \<and>
   \<not> au_paused (audios (run turn_speaking initialSession) 0) \<and>
   isConversationActive (run turn_speaking initialSession) \<and>
   transcript (run turn_speaking initialSession) = ''tell me about AI'' \<and>
   displayedResponse (run turn_speaking initialSession) = ''AI is a broad field.'' \<and>
   aiState (step (Click True) (run turn_speaking initialSession)) = IDLE \<and>
   \<not> isConversationActive (step (Click True) (run turn_speaking initialSession)) \<and>
   currentAudio (step (Click True) (run turn_speaking initialSession)) = None \<and>
   transcript (step (Click True) (run turn_speaking initialSession)) = [] \<and>
   displayedResponse (step (Click True) (run turn_speaking initialSession)) = [] \<and>
   au_paused (audios (step (Click True) (run turn_speaking initialSession)) 0) \<and>
   au_currentTime (audios (step (Click True) (run turn_speaking initialSession)) 0) = 0"
proof -
  have a: "aiState (run turn_speaking initialSession) = SPEAKING"
    by (simp add: trace_defs eval_defs)
  have b: "currentAudio (run turn_speaking initialSession) = Some 0"
    by (simp add: trace_defs eval_defs)
  have c: "\<not> au_paused (audios (run turn_speaking initialSession) 0)"
    "isConversationActive (run turn_speaking initialSession)"
    "transcript (run turn_speaking initialSession) = ''tell me about AI''"
    "displayedResponse (run turn_speaking initialSession) = ''AI is a broad field.''"
    by (simp_all add: trace_defs eval_defs)
  from stop_while_speaking [OF a, of True] a b c show ?thesis by simp
qed




text \<open>
  Claim C7, as stated, fails: when speech synthesis fails after the reply \<open>sampleReply\<close>
  has been stored, the reply is cleared; it has not been displayed while the audio was
  awaited and it is not displayed afterwards.
\<close>

theorem synthesis_failure_counterexample:
  "aiState (run turn_processing initialSession) = PROCESSING \<and>
   aiResponse (run turn_processing initialSession) = ''AI is a broad field.'' \<and>
   displayedResponse (run turn_processing initialSession) = [] \<and>
   map (\<lambda>t. case t of SpeechRequest c r \<Rightarrow> r | _ \<Rightarrow> []) (tasks (run turn_processing initialSession))
     = [''AI is a broad field.''] \<and>
   aiState (run (turn_processing @ [SpeechFails 0]) initialSession) = IDLE \<and>
   aiResponse (run (turn_processing @ [SpeechFails 0]) initialSession) = [] \<and>
   displayedResponse (run (turn_processing @ [SpeechFails 0]) initialSession) = [] \<and>
   tasks (run (turn_processing @ [SpeechFails 0]) initialSession) = []"
  by (simp add: trace_defs eval_defs)

text \<open>
  Claim C7, amended. A failure of speech synthesis is handled by the same \<open>catch\<close> block
  as a failure of the reply provider: the state becomes Idle, the reply, the displayed
  reply and the transcript are cleared, and the conversation is no longer active.
\<close>

theorem synthesis_failure_discards_turn:
  assumes "i < length (tasks s)" and "tasks s ! i = SpeechRequest c response"
  shows "aiState (step (SpeechFails i) s) = IDLE \<and>
    aiResponse (step (SpeechFails i) s) = [] \<and>
    displayedResponse (step (SpeechFails i) s) = [] \<and>
    transcript (step (SpeechFails i) s) = [] \<and>
    \<not> isConversationActive (step (SpeechFails i) s) \<and>
    \<not> isReadyToListen (step (SpeechFails i) s) \<and>
    \<not> isGlowing (step (SpeechFails i) s) \<and>
    tasks (step (SpeechFails i) s) = take i (tasks s) @ drop (Suc i) (tasks s)"
  using assms
  by (simp add: step_defs ctrl_defs)

theorem synthesis_failure_discards_turn_witness:
  "0 < length (tasks (run turn_processing initialSession)) \<and>
   (\<exists>c. tasks (run turn_processing initialSession) ! 0 = SpeechRequest c ''AI is a broad field.'') \<and>
   aiResponse (run turn_processing initialSession) = ''AI is a broad field.'' \<and>
   aiState (step (SpeechFails 0) (run turn_processing initialSession)) = IDLE \<and>
   aiResponse (step (SpeechFails 0) (run turn_processing initialSession)) = [] \<and>
   displayedResponse (step (SpeechFails 0) (run turn_processing initialSession)) = [] \<and>
   transcript (step (SpeechFails 0) (run turn_processing initialSession)) = []"
proof -
  let ?c = "\<lparr> c_aiState = LISTENING, c_transcript = ''tell me about AI'', c_isListening = True,
    c_isConversationActive = True, c_currentAudio = None \<rparr>"
  have a: "0 < length (tasks (run turn_processing initialSession))"
    by (simp add: trace_defs eval_defs)
  have b: "tasks (run turn_processing initialSession) ! 0 = SpeechRequest ?c ''AI is a broad field.''"
    by (simp add: trace_defs eval_defs)
  have r: "aiResponse (run turn_processing initialSession) = ''AI is a broad field.''"
    by (simp add: trace_defs eval_defs)
  from synthesis_failure_discards_turn [OF a b] a b r show ?thesis by simp
qed

section \<open>Properties of playback\<close>

lemma srcGetter_differs:
  "srcGetter ''http://localhost:5173'' src \<noteq> CHR ''/'' # path"
proof (cases src)
  case Nil
  then show ?thesis by (simp add: srcGetter_def)
next
  case (Cons c cs)
  then show ?thesis by (cases "c = CHR ''/''") (simp_all add: srcGetter_def)
qed

text \<open>
  Claim C6 fails on a replay of the loaded file. The first call of \<open>playSegment\<close> for
  \<open>file-1\<close> assigns the source, seeks to 120 and plays. A second call for the same file
  assigns the source again, although the stream URL has not changed: the getter reports
  the absolute URL, which never equals the relative stream URL. The element is reset
  and, until \<open>loadeddata\<close> fires again, paused at position 0 with the call still loading.
  On a page at this origin every call for \<open>file-1\<close> or \<open>file-2\<close> assigns the source,
  whatever the element holds. The rest of the contract holds on this run: file and
  segment are recorded, and once the data is there the call seeks to the start of the
  segment and plays the one element.
\<close>

theorem same_file_replay_reloads:
  "audioRef (playSegment (pageEnv True Resolves) ''file-1'' seg_1 mountedPlayback) =
     Some \<lparr> el_src = ''/api/media/files/file-1/stream'', el_readyState = 2,
       el_currentTime = 120, el_paused = False, el_loads = 1 \<rparr> \<and>
   srcGetter ''http://localhost:5173'' ''/api/media/files/file-1/stream'' =
     ''http://localhost:5173/api/media/files/file-1/stream'' \<and>
   audioRef (playSegment (pageEnv False Resolves) ''file-1'' seg_3
       (playSegment (pageEnv True Resolves) ''file-1'' seg_1 mountedPlayback)) =
     Some \<lparr> el_src = ''/api/media/files/file-1/stream'', el_readyState = 0,
       el_currentTime = 0, el_paused = True, el_loads = 2 \<rparr> \<and>
   isLoading (playSegment (pageEnv False Resolves) ''file-1'' seg_3
       (playSegment (pageEnv True Resolves) ''file-1'' seg_1 mountedPlayback)) \<and>
   audioRef (playSegment (pageEnv True Resolves) ''file-1'' seg_3
       (playSegment (pageEnv True Resolves) ''file-1'' seg_1 mountedPlayback)) =
     Some \<lparr> el_src = ''/api/media/files/file-1/stream'', el_readyState = 2,
       el_currentTime = 420, el_paused = False, el_loads = 2 \<rparr> \<and>
   currentSegment (playSegment (pageEnv True Resolves) ''file-1'' seg_3
       (playSegment (pageEnv True Resolves) ''file-1'' seg_1 mountedPlayback)) = Some seg_3 \<and>
   playingSources (playSegment (pageEnv True Resolves) ''file-1'' seg_3
       (playSegment (pageEnv True Resolves) ''file-1'' seg_1 mountedPlayback)) =
     [''/api/media/files/file-1/stream''] \<and>
   map_option el_loads (audioRef (playSegment (pageEnv loadeddata outcome) ''file-1'' segment
       (s\<lparr> audioRef := Some el \<rparr>))) = Some (Suc (el_loads el)) \<and>
   map_option el_loads (audioRef (playSegment (pageEnv loadeddata outcome) ''file-2'' segment
       (s\<lparr> audioRef := Some el \<rparr>))) = Some (Suc (el_loads el))"
proof -
  let ?first = "playSegment (pageEnv True Resolves) ''file-1'' seg_1 mountedPlayback"
  have g: "srcGetter ''http://localhost:5173'' ''/api/media/files/file-1/stream'' =
     ''http://localhost:5173/api/media/files/file-1/stream''"
    by (simp add: srcGetter_def)
  have one: "?first = \<lparr> currentFile = map_of playbackMockMediaFiles ''file-1'',
       isPlaying = True, pb_currentTime = 0, pb_duration = 0, currentSegment = Some seg_1,
       isLoading = False, pb_error = None,
       audioRef = Some \<lparr> el_src = ''/api/media/files/file-1/stream'', el_readyState = 2,
         el_currentTime = 120, el_paused = False, el_loads = 1 \<rparr> \<rparr>"
    by (simp add: playSegment_def pageEnv_def mountedPlayback_def playbackMockMediaFiles_def
        srcGetter_def assignSrc_def Let_def seg_1_def)
  have a1: "audioRef ?first =
     Some \<lparr> el_src = ''/api/media/files/file-1/stream'', el_readyState = 2,
       el_currentTime = 120, el_paused = False, el_loads = 1 \<rparr>"
    by (simp add: one)
  have two: "audioRef (playSegment (pageEnv False Resolves) ''file-1'' seg_3 ?first) =
     Some \<lparr> el_src = ''/api/media/files/file-1/stream'', el_readyState = 0,
       el_currentTime = 0, el_paused = True, el_loads = 2 \<rparr>"
    "isLoading (playSegment (pageEnv False Resolves) ''file-1'' seg_3 ?first)"
    unfolding one
    by (simp_all add: playSegment_def pageEnv_def playbackMockMediaFiles_def
        srcGetter_def assignSrc_def Let_def)
  have three: "audioRef (playSegment (pageEnv True Resolves) ''file-1'' seg_3 ?first) =
     Some \<lparr> el_src = ''/api/media/files/file-1/stream'', el_readyState = 2,
       el_currentTime = 420, el_paused = False, el_loads = 2 \<rparr>"
    "currentSegment (playSegment (pageEnv True Resolves) ''file-1'' seg_3 ?first) = Some seg_3"
    "playingSources (playSegment (pageEnv True Resolves) ''file-1'' seg_3 ?first) =
     [''/api/media/files/file-1/stream'']"
    unfolding one
    by (simp_all add: playSegment_def pageEnv_def playbackMockMediaFiles_def
        srcGetter_def assignSrc_def playingSources_def Let_def seg_3_def)
  have always1: "map_option el_loads (audioRef (playSegment (pageEnv loadeddata outcome)
       ''file-1'' segment (s\<lparr> audioRef := Some el \<rparr>))) = Some (Suc (el_loads el))"
    by (cases outcome)
       (simp_all add: playSegment_def pageEnv_def playbackMockMediaFiles_def
        srcGetter_differs assignSrc_def Let_def)
  have always2: "map_option el_loads (audioRef (playSegment (pageEnv loadeddata outcome)
       ''file-2'' segment (s\<lparr> audioRef := Some el \<rparr>))) = Some (Suc (el_loads el))"
    by (cases outcome)
       (simp_all add: playSegment_def pageEnv_def playbackMockMediaFiles_def
        srcGetter_differs assignSrc_def Let_def)
  from a1 g two three always1 always2 show ?thesis by simp
qed

end
